theory Spec2Isabelle
  imports Main "HOL-Library.Sublist"
begin

section \<open>The channel coordinator of laravel-echo-server (src/channels/channel.ts)\<close>

text \<open>
  The class \<open>Channel\<close> routes socket subscriptions into named channels. This theory embeds
  its methods as functions over an explicit state: the key-value store, the rooms of the
  transport, the \<open>userId\<close> attached to each socket, and the list of calls made to the
  outside (store, transport, authenticator, webhook, log) in the order they happen.
  Strings are byte strings; a JavaScript string with a code unit above 255 is outside the
  model.
\<close>

subsection \<open>The regular expressions built from the configured patterns\<close>

text \<open>
  \<open>isPrivate\<close> and \<open>isClientEvent\<close> build \<open>new RegExp(pattern.replace('\*', '.*'))\<close>
  and call \<open>test\<close>. In a JavaScript string literal \<open>'\*'\<close> is the one-character string
  \<open>*\<close>, and \<open>replace\<close> with a string argument rewrites the first occurrence only.
\<close>

fun replace_star :: "string \<Rightarrow> string" where
  "replace_star [] = []"
| "replace_star (c # cs) = (if c = CHR ''*'' then ''.*'' @ cs else c # replace_star cs)"

text \<open>
  The fragment of the regular-expression syntax that is modelled: a sequence of atoms, each
  an ordinary character or the dot, each optionally followed by one star. A source text
  using any other metacharacter is not compiled (\<open>None\<close>): either \<open>RegExp\<close> throws a
  SyntaxError on it (a star with nothing to repeat) or it lies outside this fragment.
\<close>

datatype atom = Lit char | Dot

datatype item = One atom | Star atom

definition metachar :: "char \<Rightarrow> bool" where
  "metachar c = (c \<in> set (CHR 0x5C # ''^$*+?()[]{}|''))"

definition atom_of :: "char \<Rightarrow> atom" where
  "atom_of c = (if c = CHR ''.'' then Dot else Lit c)"

fun compile :: "string \<Rightarrow> item list option" where
  "compile [] = Some []"
| "compile [c] = (if metachar c then None else Some [One (atom_of c)])"
| "compile (c # d # cs) =
     (if metachar c then None
      else if d = CHR ''*'' then map_option ((#) (Star (atom_of c))) (compile cs)
      else map_option ((#) (One (atom_of c))) (compile (d # cs)))"

text \<open>The dot matches every character except the line terminators.\<close>

fun atom_ok :: "atom \<Rightarrow> char \<Rightarrow> bool" where
  "atom_ok (Lit x) c = (c = x)"
| "atom_ok Dot c = (c \<noteq> CHR 0x0A \<and> c \<noteq> CHR 0x0D)"

text \<open>\<open>matches_at r s\<close>: the expression matches some prefix of \<open>s\<close>.\<close>

fun matches_at :: "item list \<Rightarrow> string \<Rightarrow> bool" where
  "matches_at [] s = True"
| "matches_at (One a # r) [] = False"
| "matches_at (One a # r) (c # s) = (atom_ok a c \<and> matches_at r s)"
| "matches_at (Star a # r) [] = matches_at r []"
| "matches_at (Star a # r) (c # s) =
     (matches_at r (c # s) \<or> (atom_ok a c \<and> matches_at (Star a # r) s))"

text \<open>\<open>RegExp.prototype.test\<close> without anchors: a match may start at any position.\<close>

fun regex_test :: "item list \<Rightarrow> string \<Rightarrow> bool" where
  "regex_test r [] = matches_at r []"
| "regex_test r (c # s) = (matches_at r (c # s) \<or> regex_test r s)"

text \<open>
  The \<open>forEach\<close> loop of \<open>isPrivate\<close> and \<open>isClientEvent\<close>: the flag starts false and is set
  by every pattern whose expression matches. \<open>None\<close> is the exception of \<open>new RegExp\<close>.
\<close>

fun matches_any :: "string list \<Rightarrow> string \<Rightarrow> bool option" where
  "matches_any [] s = Some False"
| "matches_any (p # ps) s =
     (case compile (replace_star p) of
        None \<Rightarrow> None
      | Some r \<Rightarrow> map_option (\<lambda>flag. regex_test r s \<or> flag) (matches_any ps s))"

definition privateChannels :: "string list" where
  "privateChannels = [''private-*'', ''presence-*'']"

definition clientEvents :: "string list" where
  "clientEvents = [''client-*'']"

text \<open>
  With the patterns of the class no expression fails to compile (lemmas
  \<open>privateChannels_compile\<close> and \<open>clientEvents_compile\<close> below), so the exception branch is
  never taken and both tests are boolean.
\<close>

definition isPrivate :: "string \<Rightarrow> bool" where
  "isPrivate channel = (matches_any privateChannels channel = Some True)"

definition isClientEvent :: "string \<Rightarrow> bool" where
  "isClientEvent event = (matches_any clientEvents event = Some True)"

text \<open>\<open>channel.lastIndexOf('presence-', 0) === 0\<close>: the name starts with the prefix.\<close>

definition isPresence :: "string \<Rightarrow> bool" where
  "isPresence channel = prefix ''presence-'' channel"

subsection \<open>Data\<close>

text \<open>A member of a channel, as \<open>join\<close> builds it: \<open>{userId, socketId}\<close>.\<close>

record member =
  userId :: string
  socketId :: string

text \<open>JavaScript values that are passed through without being looked into.\<close>

datatype jsval =
    JUndefined | JNull | JBool bool | JNum int | JStr string
  | JArr "jsval list" | JObj "(string \<times> jsval) list"

text \<open>
  What the store holds under a key: \<open>join\<close> and \<open>leave\<close> write a member list under
  \<open><channel>:members\<close> and a number under \<open><channel>:members-count\<close>.
\<close>

datatype stored = Members "member list" | Count nat

datatype 'a promise = Resolved 'a | Rejected string

text \<open>
  The payload of a subscribe request: \<open>data.channel\<close> (absent, or a string) and the
  \<open>auth\<close> part that only the authenticator reads. A request whose payload is
  \<open>null\<close> is not modelled.
\<close>

record subscription =
  sub_channel :: "string option"
  sub_auth :: jsval

text \<open>
  The outcome of \<open>PrivateChannel.authenticate\<close>: the promise resolves with the reply of
  the backend (\<open>res.channel_data\<close>) or is rejected with \<open>{reason, status}\<close>.
\<close>

datatype auth_result = Granted jsval | Denied string int

text \<open>
  A client event as it reaches \<open>clientEvent\<close>: a string (which \<open>JSON.parse\<close> may
  decode), an object with the fields \<open>event\<close>, \<open>channel\<close> and \<open>data\<close>, or
  \<open>null\<close>/\<open>undefined\<close>. The fields \<open>event\<close> and \<open>channel\<close> are strings when present.
\<close>

record client_msg =
  msg_event :: "string option"
  msg_channel :: "string option"
  msg_data :: jsval

datatype incoming = Text string | Message client_msg | Nullish

datatype error = TypeError

text \<open>Every call that leaves the class, in the order it is made.\<close>

datatype action =
    DbGet string
  | DbSet string stored
  | RoomJoin string string
  | RoomLeave string string
  | RoomClients string
  | Authenticate string string
  | EmitTo string string "jsval list"
  | BroadcastTo string string string "jsval list"
  | HookPost "string option" string "string option" string string
  | Log string

text \<open>
  The state the class works on. \<open>db\<close> is the key-value store and \<open>db_failure\<close> the keys
  whose read is rejected, with the error; \<open>rooms\<close> maps a room name to the ids of the
  sockets in it (\<open>socket.rooms\<close> and \<open>io.of('/').in(room).clients\<close> read the same
  adapter); \<open>socket_userId\<close> is the field \<open>socket.userId\<close> of each socket.
\<close>

record state =
  db :: "string \<Rightarrow> stored option"
  db_failure :: "string \<Rightarrow> string option"
  rooms :: "string \<Rightarrow> string set"
  socket_userId :: "string \<Rightarrow> string option"
  trace :: "action list"

record options =
  devMode :: bool
  hookEndpoint :: "string option"
  hookHost :: "string option"
  authHost :: "string option"

text \<open>
  The collaborators whose code is outside \<open>channel.ts\<close> are parameters:
  \<open>PrivateChannel.authenticate\<close>, \<open>PresenceChannel.join\<close> and \<open>leave\<close> (any effect on the
  state), and \<open>JSON.parse\<close> (\<open>None\<close> when it throws), once as \<open>clientEvent\<close> reads its
  result and once for \<open>channel_data\<close>.
\<close>

record collaborators =
  authenticate :: "string \<Rightarrow> subscription \<Rightarrow> auth_result"
  presence_join :: "string \<Rightarrow> string \<Rightarrow> jsval \<Rightarrow> state \<Rightarrow> state"
  presence_leave :: "string \<Rightarrow> string \<Rightarrow> state \<Rightarrow> state"
  parse_message :: "string \<Rightarrow> incoming option"
  parse_json :: "string \<Rightarrow> jsval option"

subsection \<open>Store and transport\<close>

definition record_action :: "action \<Rightarrow> state \<Rightarrow> state" where
  "record_action a st = st\<lparr>trace := trace st @ [a]\<rparr>"

definition members_key :: "string \<Rightarrow> string" where
  "members_key channel = channel @ '':members''"

definition count_key :: "string \<Rightarrow> string" where
  "count_key channel = channel @ '':members-count''"

text \<open>\<open>db.get(key)\<close>: the promise and the state with the call recorded.\<close>

definition db_get :: "string \<Rightarrow> state \<Rightarrow> stored option promise \<times> state" where
  "db_get key st =
     ((case db_failure st key of Some e \<Rightarrow> Rejected e | None \<Rightarrow> Resolved (db st key)),
      record_action (DbGet key) st)"

text \<open>
  \<open>db.set(key, value)\<close>. The class never looks at what \<open>set\<close> returns; the write is taken
  to succeed.
\<close>

definition db_set :: "string \<Rightarrow> stored \<Rightarrow> state \<Rightarrow> state" where
  "db_set key v st = record_action (DbSet key v) (st\<lparr>db := (db st)(key := Some v)\<rparr>)"

definition getMembers :: "string \<Rightarrow> state \<Rightarrow> stored option promise \<times> state" where
  "getMembers channel st = db_get (members_key channel) st"

definition socket_join :: "string \<Rightarrow> string \<Rightarrow> state \<Rightarrow> state" where
  "socket_join sid channel st =
     record_action (RoomJoin sid channel)
       (st\<lparr>rooms := (rooms st)(channel := insert sid (rooms st channel))\<rparr>)"

definition socket_leave :: "string \<Rightarrow> string \<Rightarrow> state \<Rightarrow> state" where
  "socket_leave sid channel st =
     record_action (RoomLeave sid channel)
       (st\<lparr>rooms := (rooms st)(channel := rooms st channel - {sid})\<rparr>)"

text \<open>
  \<open>members || []\<close> used as an array afterwards: an absent value and the falsy number 0
  give the empty list; any other number has no \<open>filter\<close> and the callback throws
  (\<open>None\<close>), after which nothing more is written.
\<close>

fun or_empty :: "stored option \<Rightarrow> member list option" where
  "or_empty None = Some []"
| "or_empty (Some (Members ms)) = Some ms"
| "or_empty (Some (Count n)) = (if n = 0 then Some [] else None)"

subsection \<open>The methods of the class\<close>

text \<open>
  \<open>channel.match(/user.(\d*)/)\<close>: the leftmost place where \<open>user\<close> is followed by one
  character that is not a line terminator; group 1 is the longest run of digits after it.
\<close>

definition is_digit :: "char \<Rightarrow> bool" where
  "is_digit c = (c \<in> set ''0123456789'')"

definition user_match_here :: "string \<Rightarrow> string option" where
  "user_match_here s =
     (if prefix ''user'' s
      then (case drop 4 s of
              [] \<Rightarrow> None
            | d # rest \<Rightarrow> if atom_ok Dot d then Some (takeWhile is_digit rest) else None)
      else None)"

fun user_match :: "string \<Rightarrow> string option" where
  "user_match [] = None"
| "user_match (c # cs) =
     (case user_match_here (c # cs) of Some g \<Rightarrow> Some g | None \<Rightarrow> user_match cs)"

text \<open>
  \<open>onJoin\<close>: \<open>if (match && match[1]) socket.userId = match[1]\<close>, then the log line in
  dev mode (its timestamp is left out).
\<close>

definition onJoin :: "options \<Rightarrow> string \<Rightarrow> string \<Rightarrow> state \<Rightarrow> state" where
  "onJoin opts sid channel st =
     (let st1 = (case user_match channel of
                   None \<Rightarrow> st
                 | Some g \<Rightarrow> if g = [] then st
                             else st\<lparr>socket_userId := (socket_userId st)(sid := Some g)\<rparr>)
      in if devMode opts
         then record_action (Log (sid @ '' joined channel: '' @ channel)) st1
         else st1)"

text \<open>
  \<open>removeInactive\<close>: ask the transport for the clients of the room, then keep the members
  whose socket is among them and whose \<open>userId\<close> differs from the joining member's. The
  \<open>error\<close> argument of the callback is not read by the source; the transport is taken to
  answer.
\<close>

definition removeInactive ::
  "string \<Rightarrow> stored option \<Rightarrow> member \<Rightarrow> state \<Rightarrow> member list option \<times> state" where
  "removeInactive channel members m st =
     (let clients = rooms st channel
      in (map_option (filter (\<lambda>e. socketId e \<in> clients \<and> userId e \<noteq> userId m))
            (or_empty members),
          record_action (RoomClients channel) st))"

text \<open>
  \<open>JSON.parse(res.channel_data)\<close> inside \<open>try\<close>: a string that parses is replaced by its
  value; anything else stays as it is. (\<open>JSON.parse\<close> turns a value that is not a string
  into a string first, so a one-element array of a number would become that number; the
  model keeps it. The value only goes on to \<open>presence.join\<close>.)
\<close>

definition decode_channel_data :: "(string \<Rightarrow> jsval option) \<Rightarrow> jsval \<Rightarrow> jsval" where
  "decode_channel_data parse v =
     (case v of
        JStr s \<Rightarrow> (case parse s of Some w \<Rightarrow> w | None \<Rightarrow> v)
      | _ \<Rightarrow> v)"

text \<open>
  \<open>joinPrivate\<close>. \<open>channel\<close> is \<open>data.channel\<close>, which \<open>join\<close> has found to be a non-empty
  string. The callbacks of the promise run when the authenticator has answered.
\<close>

definition joinPrivate ::
  "collaborators \<Rightarrow> options \<Rightarrow> string \<Rightarrow> subscription \<Rightarrow> string \<Rightarrow> state \<Rightarrow> state" where
  "joinPrivate col opts sid data channel st =
     (let st0 = record_action (Authenticate sid channel) st
      in case authenticate col sid data of
           Granted channel_data \<Rightarrow>
             (let st1 = socket_join sid channel st0;
                  st2 = (if isPresence channel
                         then presence_join col sid channel
                                (decode_channel_data (parse_json col) channel_data) st1
                         else st1)
              in onJoin opts sid channel st2)
         | Denied reason status \<Rightarrow>
             (let st1 = (if devMode opts then record_action (Log reason) st0 else st0)
              in record_action
                   (EmitTo sid ''subscription_error'' [JStr channel, JNum status]) st1))"

text \<open>
  \<open>join\<close>. A string is truthy when it is not empty. The callback of \<open>getMembers\<close> and the
  one of \<open>removeInactive\<close> run one after the other, nothing in between.
\<close>

definition join ::
  "collaborators \<Rightarrow> options \<Rightarrow> string \<Rightarrow> subscription \<Rightarrow> state \<Rightarrow> state" where
  "join col opts sid data st =
     (case sub_channel data of
        None \<Rightarrow> st
      | Some channel \<Rightarrow>
          if channel = [] then st
          else if isPrivate channel then joinPrivate col opts sid data channel st
          else
            (let st1 = onJoin opts sid channel st;
                 st2 = socket_join sid channel st1
             in case socket_userId st2 sid of
                  None \<Rightarrow> st2
                | Some uid \<Rightarrow>
                    if uid = [] then st2
                    else
                      (case getMembers channel st2 of
                         (Rejected e, st3) \<Rightarrow> record_action (Log e) st3
                       | (Resolved members, st3) \<Rightarrow>
                           (let m = \<lparr>userId = uid, socketId = sid\<rparr>
                            in case removeInactive channel members m st3 of
                                 (None, st4) \<Rightarrow> st4
                               | (Some list, st4) \<Rightarrow>
                                   (let members' = list @ [m]
                                    in db_set (count_key channel) (Count (length members'))
                                         (db_set (members_key channel) (Members members')
                                            st4))))))"

text \<open>
  \<open>prepareHookHeaders\<close> and \<open>sendHook\<close>: one POST to \<open>hookHost + hookEndpoint\<close> (the
  \<open>authHost\<close> when no \<open>hookHost\<close> is set) with the form \<open>{userId, event, channel}\<close>. The
  callback of the request only logs.
\<close>

definition sendHook :: "options \<Rightarrow> string \<Rightarrow> string \<Rightarrow> string \<Rightarrow> string \<Rightarrow> state \<Rightarrow> state" where
  "sendHook opts endpoint sid channel event st =
     (let host = (case hookHost opts of
                    None \<Rightarrow> authHost opts
                  | Some h \<Rightarrow> if h = [] then authHost opts else Some h)
      in record_action (HookPost host endpoint (socket_userId st sid) event channel) st)"

text \<open>
  \<open>leave\<close>. Its synchronous part (the read is started, the room is left, the hook is sent,
  the log line is written) comes first; the callback of \<open>getMembers\<close> runs after it. The
  result of \<open>members.find\<close> is not used.
\<close>

definition leave ::
  "collaborators \<Rightarrow> options \<Rightarrow> string \<Rightarrow> string \<Rightarrow> string \<Rightarrow> state \<Rightarrow> state" where
  "leave col opts sid channel reason st =
     (if channel = [] then st
      else
        (let (pending, st1) =
               (if isPresence channel then (None, presence_leave col sid channel st)
                else (case getMembers channel st of (p, s) \<Rightarrow> (Some p, s)));
             st2 = socket_leave sid channel st1;
             st3 = (case hookEndpoint opts of
                      None \<Rightarrow> st2
                    | Some ep \<Rightarrow> if ep = [] then st2
                                 else sendHook opts ep sid channel ''leave'' st2);
             st4 = (if devMode opts
                    then record_action
                           (Log (sid @ '' left channel: '' @ channel @ '' ('' @ reason @ '')''))
                           st3
                    else st3)
         in case pending of
              None \<Rightarrow> st4
            | Some (Rejected e) \<Rightarrow> record_action (Log e) st4
            | Some (Resolved members) \<Rightarrow>
                (case or_empty members of
                   None \<Rightarrow> st4
                 | Some ms \<Rightarrow>
                     (let members' = filter (\<lambda>m. socketId m \<noteq> sid) ms
                      in db_set (count_key channel) (Count (length members'))
                           (db_set (members_key channel) (Members members') st4)))))"

text \<open>
  \<open>isInChannel\<close>: \<open>!!socket.rooms[channel]\<close>, read as membership of the socket in the
  room. On the plain object \<open>socket.rooms\<close> a name inherited from the prototype (such as
  \<open>constructor\<close>) is truthy as well; no such name passes \<open>isPrivate\<close>, the test that
  \<open>clientEvent\<close> makes before this one.
\<close>

definition isInChannel :: "state \<Rightarrow> string \<Rightarrow> string \<Rightarrow> bool" where
  "isInChannel st sid channel = (sid \<in> rooms st channel)"

text \<open>
  \<open>clientEvent\<close>. \<open>JSON.parse\<close> is tried on a string only (on an object it throws and the
  object stays). Reading \<open>data.event\<close> of \<open>null\<close> or \<open>undefined\<close> throws a TypeError; a
  string has no such property. The sender is looked up in \<open>io.sockets.connected\<close>: a
  socket that is in a room is connected, so the lookup succeeds where it is reached.
\<close>

definition decode_incoming :: "collaborators \<Rightarrow> incoming \<Rightarrow> incoming" where
  "decode_incoming col raw =
     (case raw of
        Text s \<Rightarrow> (case parse_message col s of Some d \<Rightarrow> d | None \<Rightarrow> raw)
      | _ \<Rightarrow> raw)"

definition clientEvent :: "collaborators \<Rightarrow> string \<Rightarrow> incoming \<Rightarrow> state \<Rightarrow> error + state" where
  "clientEvent col sid raw st =
     (let data = decode_incoming col raw
      in case data of
           Nullish \<Rightarrow> Inl TypeError
         | Text s \<Rightarrow> Inr st
         | Message m \<Rightarrow>
             (case (msg_event m, msg_channel m) of
                (Some event, Some channel) \<Rightarrow>
                  if event \<noteq> [] \<and> channel \<noteq> [] \<and> isClientEvent event \<and> isPrivate channel
                     \<and> isInChannel st sid channel
                  then Inr (record_action
                              (BroadcastTo sid channel event [JStr channel, msg_data m]) st)
                  else Inr st
              | _ \<Rightarrow> Inr st))"

text \<open>
  Who receives an emission, by the rules of the transport:
  \<open>io.sockets.to(room).emit\<close> reaches every socket of the room,
  \<open>socket.broadcast.to(room).emit\<close> every socket of the room but the sender.
\<close>

fun receivers :: "state \<Rightarrow> action \<Rightarrow> string set" where
  "receivers st (EmitTo room event args) = rooms st room"
| "receivers st (BroadcastTo sender room event args) = rooms st room - {sender}"
| "receivers st _ = {}"

subsection \<open>Reading a state\<close>

text \<open>The calls made between two states, and the kinds of call the claims speak of.\<close>

definition new_actions :: "state \<Rightarrow> state \<Rightarrow> action list" where
  "new_actions st st' = drop (length (trace st)) (trace st')"

fun is_store_access :: "action \<Rightarrow> bool" where
  "is_store_access (DbGet k) = True"
| "is_store_access (DbSet k v) = True"
| "is_store_access _ = False"

fun is_store_write :: "action \<Rightarrow> bool" where
  "is_store_write (DbSet k v) = True"
| "is_store_write _ = False"

fun is_room_join :: "action \<Rightarrow> bool" where
  "is_room_join (RoomJoin s c) = True"
| "is_room_join _ = False"

fun is_emission :: "action \<Rightarrow> bool" where
  "is_emission (EmitTo r e a) = True"
| "is_emission (BroadcastTo s r e a) = True"
| "is_emission _ = False"

text \<open>The member list persisted for a channel; nothing stored reads as the empty list.\<close>

definition stored_members :: "state \<Rightarrow> string \<Rightarrow> member list" where
  "stored_members st channel =
     (case db st (members_key channel) of Some (Members ms) \<Rightarrow> ms | _ \<Rightarrow> [])"

definition one_per_socket :: "state \<Rightarrow> string \<Rightarrow> bool" where
  "one_per_socket st channel = distinct (map socketId (stored_members st channel))"

text \<open>An empty store, no socket in any room, no user id, nothing called yet.\<close>

definition init :: state where
  "init = \<lparr>db = (\<lambda>k. None), db_failure = (\<lambda>k. None), rooms = (\<lambda>c. {}),
           socket_userId = (\<lambda>s. None), trace = []\<rparr>"

definition quiet :: options where
  "quiet = \<lparr>devMode = False, hookEndpoint = None, hookHost = None, authHost = None\<rparr>"

text \<open>
  Collaborators for concrete runs: a backend that refuses every subscription with status
  403 and reason \<open>Forbidden\<close>, presence methods without effect, and a \<open>JSON.parse\<close> that
  rejects every text.
\<close>

definition refusing :: collaborators where
  "refusing = \<lparr>authenticate = (\<lambda>sid data. Denied ''Forbidden'' 403),
               presence_join = (\<lambda>sid channel m st. st),
               presence_leave = (\<lambda>sid channel st. st),
               parse_message = (\<lambda>s. None),
               parse_json = (\<lambda>s. None)\<rparr>"

definition subscribe :: "string \<Rightarrow> subscription" where
  "subscribe channel = \<lparr>sub_channel = Some channel, sub_auth = JUndefined\<rparr>"

text \<open>
  States for concrete runs. In \<open>busy\<close> the channel \<open>lobby\<close> has three persisted members,
  of which the sockets A and C are in the room; the sockets A and B belong to user 7.
  \<open>after_three_joins\<close> is reached from the initial state by three subscriptions of one
  socket. In \<open>chat\<close> every socket is in the room of its own id, and A and B are in the room
  of a private channel.
\<close>

definition busy :: state where
  "busy = \<lparr>db = (\<lambda>k. None)(''lobby:members'' := Some (Members
                   [\<lparr>userId = ''7'', socketId = ''A''\<rparr>,
                    \<lparr>userId = ''8'', socketId = ''C''\<rparr>,
                    \<lparr>userId = ''9'', socketId = ''D''\<rparr>])),
           db_failure = (\<lambda>k. None),
           rooms = (\<lambda>c. {})(''lobby'' := {''A'', ''C''}),
           socket_userId = (\<lambda>s. None)(''A'' := Some ''7'', ''B'' := Some ''7''),
           trace = []\<rparr>"

definition after_three_joins :: state where
  "after_three_joins =
     join refusing quiet ''A'' (subscribe ''user.9'')
       (join refusing quiet ''A'' (subscribe ''lobby'')
          (join refusing quiet ''A'' (subscribe ''user.7'') init))"

definition chat :: state where
  "chat = init\<lparr>rooms := (\<lambda>c. {})(''A'' := {''A''}, ''B'' := {''B''}, ''C'' := {''C''},
                                   ''private-chat'' := {''A'', ''B''})\<rparr>"

text \<open>
  A client event whose name has \<open>client-\<close> in the middle, and a state in which A and B
  are in the room of a channel whose name has \<open>private-\<close> in the middle.
\<close>

definition odd_event :: "string \<Rightarrow> client_msg" where
  "odd_event channel = \<lparr>msg_event = Some ''x-client-y'', msg_channel = Some channel,
                         msg_data = JStr ''hi''\<rparr>"

definition side_room :: state where
  "side_room = init\<lparr>rooms := (\<lambda>c. {})(''A'' := {''A''}, ''B'' := {''B''},
                                        ''my-private-room'' := {''A'', ''B''})\<rparr>"

subsection \<open>Facts about the classifier\<close>

lemma matches_at_dot_star: "matches_at [Star Dot] s"
  by (induction s) simp_all

lemma matches_at_literal:
  "matches_at (map (\<lambda>c. One (Lit c)) p @ [Star Dot]) s = prefix p s"
proof (induction p arbitrary: s)
  case Nil
  show ?case by (simp add: matches_at_dot_star)
next
  case (Cons x p)
  show ?case by (cases s) (auto simp: Cons.IH)
qed

lemma regex_test_literal:
  "regex_test (map (\<lambda>c. One (Lit c)) p @ [Star Dot]) s = sublist p s"
proof (induction s)
  case Nil
  show ?case by (simp add: matches_at_literal)
next
  case (Cons c s)
  show ?case by (simp add: matches_at_literal Cons.IH sublist_Cons_right)
qed

lemma privateChannels_compile:
  "compile (replace_star ''private-*'') = Some (map (\<lambda>c. One (Lit c)) ''private-'' @ [Star Dot])"
  "compile (replace_star ''presence-*'') = Some (map (\<lambda>c. One (Lit c)) ''presence-'' @ [Star Dot])"
  by (simp_all add: metachar_def atom_of_def)

lemma clientEvents_compile:
  "compile (replace_star ''client-*'') = Some (map (\<lambda>c. One (Lit c)) ''client-'' @ [Star Dot])"
  by (simp add: metachar_def atom_of_def)

lemma matches_any_privateChannels:
  "matches_any privateChannels s = Some (sublist ''private-'' s \<or> sublist ''presence-'' s)"
  unfolding privateChannels_def
  by (simp only: matches_any.simps privateChannels_compile option.case regex_test_literal
        map_option_case) simp

lemma matches_any_clientEvents:
  "matches_any clientEvents s = Some (sublist ''client-'' s)"
  unfolding clientEvents_def
  by (simp only: matches_any.simps clientEvents_compile option.case regex_test_literal
        map_option_case) simp

lemma isPrivate_iff: "isPrivate s = (sublist ''private-'' s \<or> sublist ''presence-'' s)"
  by (simp add: isPrivate_def matches_any_privateChannels)

lemma isClientEvent_iff: "isClientEvent s = sublist ''client-'' s"
  by (simp add: isClientEvent_def matches_any_clientEvents)

lemma isPresence_isPrivate: "isPresence s \<Longrightarrow> isPrivate s"
  by (simp add: isPresence_def isPrivate_iff)

lemma isPrivate_Nil [simp]: "\<not> isPrivate []"
  by (simp add: isPrivate_iff)

lemma isClientEvent_Nil [simp]: "\<not> isClientEvent []"
  by (simp add: isClientEvent_iff)

subsection \<open>Facts about the state operations\<close>

lemma record_action_simps [simp]:
  "db (record_action a st) = db st"
  "db_failure (record_action a st) = db_failure st"
  "rooms (record_action a st) = rooms st"
  "socket_userId (record_action a st) = socket_userId st"
  "trace (record_action a st) = trace st @ [a]"
  by (simp_all add: record_action_def)

lemma db_set_simps [simp]:
  "db (db_set k v st) = (db st)(k := Some v)"
  "db_failure (db_set k v st) = db_failure st"
  "rooms (db_set k v st) = rooms st"
  "socket_userId (db_set k v st) = socket_userId st"
  "trace (db_set k v st) = trace st @ [DbSet k v]"
  by (simp_all add: db_set_def)

lemma socket_join_simps [simp]:
  "db (socket_join sid c st) = db st"
  "db_failure (socket_join sid c st) = db_failure st"
  "rooms (socket_join sid c st) = (rooms st)(c := insert sid (rooms st c))"
  "socket_userId (socket_join sid c st) = socket_userId st"
  "trace (socket_join sid c st) = trace st @ [RoomJoin sid c]"
  by (simp_all add: socket_join_def)

lemma socket_leave_simps [simp]:
  "db (socket_leave sid c st) = db st"
  "db_failure (socket_leave sid c st) = db_failure st"
  "rooms (socket_leave sid c st) = (rooms st)(c := rooms st c - {sid})"
  "socket_userId (socket_leave sid c st) = socket_userId st"
  "trace (socket_leave sid c st) = trace st @ [RoomLeave sid c]"
  by (simp_all add: socket_leave_def)

lemma onJoin_simps [simp]:
  "db (onJoin opts sid c st) = db st"
  "db_failure (onJoin opts sid c st) = db_failure st"
  "rooms (onJoin opts sid c st) = rooms st"
  "trace (onJoin opts sid c st) =
     trace st @ (if devMode opts then [Log (sid @ '' joined channel: '' @ c)] else [])"
  by (simp_all add: onJoin_def Let_def split: option.split)

lemma sendHook_simps [simp]:
  "db (sendHook opts ep sid c ev st) = db st"
  "db_failure (sendHook opts ep sid c ev st) = db_failure st"
  "rooms (sendHook opts ep sid c ev st) = rooms st"
  "socket_userId (sendHook opts ep sid c ev st) = socket_userId st"
  by (simp_all add: sendHook_def Let_def)

lemma db_get_simps [simp]:
  "snd (db_get k st) = record_action (DbGet k) st"
  "fst (db_get k st) = (case db_failure st k of Some e \<Rightarrow> Rejected e | None \<Rightarrow> Resolved (db st k))"
  by (simp_all add: db_get_def)

lemma new_actions_append [simp]: "trace st' = trace st @ xs \<Longrightarrow> new_actions st st' = xs"
  by (simp add: new_actions_def)

lemma keys_differ [simp]:
  "members_key c \<noteq> count_key c'"
  "count_key c' \<noteq> members_key c"
proof -
  have "last (members_key c) \<noteq> last (count_key c')"
    by (simp add: members_key_def count_key_def)
  then show "members_key c \<noteq> count_key c'" "count_key c' \<noteq> members_key c"
    by auto
qed

lemma keys_inject [simp]:
  "(members_key c = members_key c') = (c = c')"
  "(count_key c = count_key c') = (c = c')"
  by (simp_all add: members_key_def count_key_def)

lemma or_empty_stored: "or_empty (db st (members_key c)) = Some S \<Longrightarrow> stored_members st c = S"
  by (cases "db st (members_key c)" rule: or_empty.cases)
     (auto simp: stored_members_def split: if_splits)

lemma join_denied:
  assumes "sub_channel data = Some channel" "isPrivate channel"
    and "authenticate col sid data = Denied reason status"
  shows "join col opts sid data st =
           record_action (EmitTo sid ''subscription_error'' [JStr channel, JNum status])
             ((if devMode opts then record_action (Log reason) else id)
                (record_action (Authenticate sid channel) st))"
proof -
  from assms(2) have "channel \<noteq> []" by auto
  with assms show ?thesis by (simp add: join_def joinPrivate_def Let_def)
qed

lemma leave_public:
  assumes "channel \<noteq> []" "\<not> isPresence channel"
    and "db_failure st (members_key channel) = None"
    and "or_empty (db st (members_key channel)) = Some S"
  shows "db (leave col opts sid channel reason st)
           = (db st)(members_key channel := Some (Members (filter (\<lambda>m. socketId m \<noteq> sid) S)),
                     count_key channel := Some (Count (length (filter (\<lambda>m. socketId m \<noteq> sid) S))))"
    and "rooms (leave col opts sid channel reason st)
           = (rooms st)(channel := rooms st channel - {sid})"
    and "filter is_store_access (new_actions st (leave col opts sid channel reason st))
           = [DbGet (members_key channel),
              DbSet (members_key channel) (Members (filter (\<lambda>m. socketId m \<noteq> sid) S)),
              DbSet (count_key channel) (Count (length (filter (\<lambda>m. socketId m \<noteq> sid) S)))]"
  using assms
  by (simp_all add: leave_def Let_def getMembers_def db_get_def new_actions_def sendHook_def
        record_action_def db_set_def socket_leave_def split: option.split)

lemma join_stored_members:
  assumes "sub_channel data = Some ch" "\<not> isPresence ch"
  shows "stored_members (join col opts sid data st) c = stored_members st c
       \<or> (c = ch \<and> (\<exists>uid. socket_userId (onJoin opts sid ch st) sid = Some uid
             \<and> stored_members (join col opts sid data st) c
                 = filter (\<lambda>e. socketId e \<in> insert sid (rooms st ch) \<and> userId e \<noteq> uid)
                     (stored_members st ch) @ [\<lparr>userId = uid, socketId = sid\<rparr>]))"
proof (cases "ch = [] \<or> isPrivate ch")
  case True
  then have "db (join col opts sid data st) = db st"
    using assms
    by (auto simp: join_def joinPrivate_def Let_def split: auth_result.split)
  then show ?thesis by (simp add: stored_members_def)
next
  case False
  show ?thesis
  proof (cases "socket_userId (onJoin opts sid ch st) sid")
    case None
    with False assms have "db (join col opts sid data st) = db st"
      by (simp add: join_def Let_def)
    then show ?thesis by (simp add: stored_members_def)
  next
    case (Some uid)
    show ?thesis
    proof (cases "uid = [] \<or> db_failure st (members_key ch) \<noteq> None
                   \<or> or_empty (db st (members_key ch)) = None")
      case True
      with False assms Some have "db (join col opts sid data st) = db st"
        by (auto simp: join_def Let_def getMembers_def db_get_def removeInactive_def
              split: option.split)
      then show ?thesis by (simp add: stored_members_def)
    next
      case ok: False
      then obtain S where S: "or_empty (db st (members_key ch)) = Some S" by auto
      with False assms Some ok
      have "db (join col opts sid data st)
              = (db st)(members_key ch := Some (Members
                   (filter (\<lambda>e. socketId e \<in> insert sid (rooms st ch) \<and> userId e \<noteq> uid) S
                      @ [\<lparr>userId = uid, socketId = sid\<rparr>])),
                 count_key ch := Some (Count (Suc (length
                   (filter (\<lambda>e. socketId e \<in> insert sid (rooms st ch) \<and> userId e \<noteq> uid) S)))))"
        by (auto simp: join_def Let_def getMembers_def db_get_def removeInactive_def)
      with or_empty_stored [OF S] Some show ?thesis
        by (cases "c = ch") (simp_all add: stored_members_def)
    qed
  qed
qed

lemma leave_stored_members:
  assumes "\<not> isPresence ch"
  shows "stored_members (leave col opts sid ch reason st) c = stored_members st c
       \<or> (c = ch \<and> stored_members (leave col opts sid ch reason st) c
                      = filter (\<lambda>m. socketId m \<noteq> sid) (stored_members st ch))"
proof (cases "ch = [] \<or> db_failure st (members_key ch) \<noteq> None
               \<or> or_empty (db st (members_key ch)) = None")
  case True
  with assms have "db (leave col opts sid ch reason st) = db st"
    by (auto simp: leave_def Let_def getMembers_def db_get_def split: option.split)
  then show ?thesis by (simp add: stored_members_def)
next
  case False
  then obtain S where S: "or_empty (db st (members_key ch)) = Some S" by auto
  from False assms S leave_public(1) [of ch st S col opts sid reason] or_empty_stored [OF S]
  show ?thesis
    by (cases "c = ch") (simp_all add: stored_members_def)
qed

lemma distinct_socket_filter:
  "distinct (map socketId xs) \<Longrightarrow> distinct (map socketId (filter P xs))"
  by (simp add: distinct_map_filter)

lemmas run_defs =
  join_def joinPrivate_def leave_def onJoin_def getMembers_def db_get_def db_set_def
  removeInactive_def socket_join_def socket_leave_def record_action_def sendHook_def
  user_match_here_def is_digit_def members_key_def count_key_def Let_def
  init_def quiet_def refusing_def subscribe_def new_actions_def stored_members_def
  one_per_socket_def isPresence_def

lemma isPrivate_examples:
  "isPrivate ''private-a''" "isPrivate ''private-chat''" "\<not> isPrivate ''lobby''"
  "\<not> isPrivate ''user.7''" "\<not> isPrivate ''user.9''" "\<not> isPrivate ''room1''"
  "\<not> isPrivate ''user512''" "isPrivate ''my-private-room''"
  by (simp_all add: isPrivate_iff sublist_Cons_right)

lemma busy_members:
  "or_empty (db busy (''lobby'' @ '':members''))
     = Some [\<lparr>userId = ''7'', socketId = ''A''\<rparr>,
             \<lparr>userId = ''8'', socketId = ''C''\<rparr>,
             \<lparr>userId = ''9'', socketId = ''D''\<rparr>]"
  "db_failure busy (''lobby'' @ '':members'') = None"
  "stored_members busy ''lobby''
     = [\<lparr>userId = ''7'', socketId = ''A''\<rparr>,
        \<lparr>userId = ''8'', socketId = ''C''\<rparr>,
        \<lparr>userId = ''9'', socketId = ''D''\<rparr>]"
  by (simp_all add: busy_def stored_members_def members_key_def)

text \<open>
  What \<open>clientEvent\<close> does with a decoded message: one broadcast is added to the calls
  when the event name contains \<open>client-\<close>, the channel name contains \<open>private-\<close> or
  \<open>presence-\<close> and the sender is in the room; otherwise the state is returned as it was.
\<close>

lemma clientEvent_message:
  assumes "decode_incoming col raw = Message m"
    and "msg_event m = Some event" "msg_channel m = Some channel"
  shows "clientEvent col sid raw st
           = Inr (if sublist ''client-'' event
                     \<and> (sublist ''private-'' channel \<or> sublist ''presence-'' channel)
                     \<and> sid \<in> rooms st channel
                  then st\<lparr>trace := trace st
                          @ [BroadcastTo sid channel event [JStr channel, msg_data m]]\<rparr>
                  else st)"
proof -
  have "sublist ''client-'' event \<Longrightarrow> event \<noteq> []"
    and "sublist ''private-'' channel \<or> sublist ''presence-'' channel \<Longrightarrow> channel \<noteq> []"
    by auto
  with assms show ?thesis
    by (auto simp: clientEvent_def Let_def isClientEvent_iff isPrivate_iff isInChannel_def
          record_action_def)
qed

section \<open>The claims\<close>

subsection \<open>C1: what a join persists\<close>

text \<open>
  Claim C1. A join of a channel that is not private-style, by a socket that carries a
  \<open>userId\<close> once \<open>onJoin\<close> has run, whose read of \<open><channel>:members\<close> succeeds with
  the list \<open>S\<close> (nothing stored reads as the empty list) and whose callbacks run without
  interleaving: with \<open>L\<close> the sockets in the room of the channel when the transport is
  asked (the room after the joining socket has been registered) and \<open>m\<close> the joining
  member, the list persisted under \<open><channel>:members\<close> is the subsequence of \<open>S\<close> of the
  entries whose \<open>socketId\<close> is in \<open>L\<close> and whose \<open>userId\<close> differs from the one of \<open>m\<close>,
  followed by \<open>m\<close>, and \<open><channel>:members-count\<close> holds the length of that list.
\<close>

theorem join_persists_reconciled:
  assumes "sub_channel data = Some channel" "channel \<noteq> []" "\<not> isPrivate channel"
    and "socket_userId (onJoin opts sid channel st) sid = Some uid" "uid \<noteq> []"
    and "db_failure st (channel @ '':members'') = None"
    and "or_empty (db st (channel @ '':members'')) = Some S"
  shows "let L = insert sid (rooms st channel);
             m = \<lparr>userId = uid, socketId = sid\<rparr>;
             kept = filter (\<lambda>e. socketId e \<in> L \<and> userId e \<noteq> userId m) S
         in db (join col opts sid data st) (channel @ '':members'') = Some (Members (kept @ [m]))
          \<and> db (join col opts sid data st) (channel @ '':members-count'')
              = Some (Count (length (kept @ [m])))"
  using assms
  by (simp add: join_def Let_def getMembers_def db_get_def removeInactive_def
        members_key_def count_key_def)

text \<open>
  The theorem at a concrete join: B joins \<open>lobby\<close> as user 7. The entry of A is dropped
  (same user), the entry of D is dropped (not in the room), the entry of C stays.
\<close>

theorem join_persists_reconciled_witness:
  "sub_channel (subscribe ''lobby'') = Some ''lobby'' \<and> \<not> isPrivate ''lobby''
   \<and> socket_userId (onJoin quiet ''B'' ''lobby'' busy) ''B'' = Some ''7''
   \<and> db_failure busy ''lobby:members'' = None
   \<and> db (join refusing quiet ''B'' (subscribe ''lobby'') busy) ''lobby:members''
        = Some (Members [\<lparr>userId = ''8'', socketId = ''C''\<rparr>, \<lparr>userId = ''7'', socketId = ''B''\<rparr>])
   \<and> db (join refusing quiet ''B'' (subscribe ''lobby'') busy) ''lobby:members-count''
        = Some (Count 2)"
proof -
  have h1: "sub_channel (subscribe ''lobby'') = Some ''lobby''" by (simp add: subscribe_def)
  have h2: "''lobby'' \<noteq> []" by simp
  have h3: "\<not> isPrivate ''lobby''" by (rule isPrivate_examples)
  have h4: "socket_userId (onJoin quiet ''B'' ''lobby'' busy) ''B'' = Some ''7''"
    by (simp add: onJoin_def user_match_here_def quiet_def busy_def)
  have h5: "''7'' \<noteq> []" by simp
  have h6: "db_failure busy (''lobby'' @ '':members'') = None" by (simp add: busy_def)
  have h7: "or_empty (db busy (''lobby'' @ '':members''))
              = Some [\<lparr>userId = ''7'', socketId = ''A''\<rparr>,
                      \<lparr>userId = ''8'', socketId = ''C''\<rparr>,
                      \<lparr>userId = ''9'', socketId = ''D''\<rparr>]"
    by (simp add: busy_def)
  have r: "rooms busy ''lobby'' = {''A'', ''C''}" by (simp add: busy_def)
  from join_persists_reconciled [OF h1 h2 h3 h4 h5 h6 h7, of refusing] h1 h3 h4 h6 r
  show ?thesis by (simp add: Let_def)
qed

subsection \<open>C2: leaving a channel that is not a presence channel\<close>

text \<open>
  Claim C2 says that the leave of a channel that is not a presence channel neither reads
  nor writes the keys \<open><channel>:members\<close> and \<open><channel>:members-count\<close>. The source
  does both on exactly this branch: on the initial state, the leave of \<open>room1\<close> reads the
  member list and writes both keys.
\<close>

theorem leave_public_touches_store:
  "\<not> isPresence ''room1''
   \<and> new_actions init (leave refusing quiet ''s1'' ''room1'' ''bye'' init)
       = [DbGet ''room1:members'', RoomLeave ''s1'' ''room1'',
          DbSet ''room1:members'' (Members []), DbSet ''room1:members-count'' (Count 0)]"
  by (simp add: run_defs)

text \<open>
  Claim C2, amended. When a connection leaves a channel with a non-empty name that is not
  a presence channel and the read of \<open><channel>:members\<close> succeeds with the list \<open>S\<close>,
  the accesses to the store are exactly: one read of \<open><channel>:members\<close>, then the write
  of \<open>S\<close> without the entries of the leaving socket under \<open><channel>:members\<close>, then the
  write of its length under \<open><channel>:members-count\<close>; and the socket is removed from the
  room of the channel.
\<close>

theorem leave_public_store_accesses:
  assumes "channel \<noteq> []" "\<not> isPresence channel"
    and "db_failure st (channel @ '':members'') = None"
    and "or_empty (db st (channel @ '':members'')) = Some S"
  shows "filter is_store_access (new_actions st (leave col opts sid channel reason st))
           = [DbGet (channel @ '':members''),
              DbSet (channel @ '':members'') (Members (filter (\<lambda>m. socketId m \<noteq> sid) S)),
              DbSet (channel @ '':members-count'')
                (Count (length (filter (\<lambda>m. socketId m \<noteq> sid) S)))]
       \<and> rooms (leave col opts sid channel reason st)
           = (rooms st)(channel := rooms st channel - {sid})"
  using leave_public(2,3) [of channel st S col opts sid reason] assms
  by (simp add: members_key_def count_key_def)

text \<open>
  The amended statement at a concrete leave: A leaves \<open>lobby\<close> in the state \<open>busy\<close>.
\<close>

theorem leave_public_store_accesses_witness:
  "\<not> isPresence ''lobby'' \<and> db_failure busy ''lobby:members'' = None
   \<and> filter is_store_access (new_actions busy (leave refusing quiet ''A'' ''lobby'' ''bye'' busy))
       = [DbGet ''lobby:members'',
          DbSet ''lobby:members'' (Members [\<lparr>userId = ''8'', socketId = ''C''\<rparr>,
                                            \<lparr>userId = ''9'', socketId = ''D''\<rparr>]),
          DbSet ''lobby:members-count'' (Count 2)]"
proof -
  have h1: "''lobby'' \<noteq> []" by simp
  have h2: "\<not> isPresence ''lobby''" by (simp add: isPresence_def)
  from leave_public_store_accesses [OF h1 h2 busy_members(2) busy_members(1),
         of refusing quiet "''A''" "''bye''"] h2 busy_members(2)
  show ?thesis by simp
qed

subsection \<open>C3: a denied authorization changes nothing\<close>

text \<open>
  Claim C3. When the authorization of a private-style channel is denied, the join leaves
  the rooms, the store and the user ids as they were, registers the socket in no room and
  writes nothing to the store.
\<close>

theorem denied_changes_nothing:
  assumes "sub_channel data = Some channel" "isPrivate channel"
    and "authenticate col sid data = Denied reason status"
  shows "rooms (join col opts sid data st) = rooms st
       \<and> db (join col opts sid data st) = db st
       \<and> socket_userId (join col opts sid data st) = socket_userId st
       \<and> filter is_room_join (new_actions st (join col opts sid data st)) = []
       \<and> filter is_store_write (new_actions st (join col opts sid data st)) = []"
  by (simp add: join_denied [OF assms] new_actions_def)

text \<open>
  The theorem at a concrete denial: a backend that answers 403 to the subscription of
  \<open>private-a\<close>.
\<close>

theorem denied_changes_nothing_witness:
  "sub_channel (subscribe ''private-a'') = Some ''private-a'' \<and> isPrivate ''private-a''
   \<and> authenticate refusing ''s1'' (subscribe ''private-a'') = Denied ''Forbidden'' 403
   \<and> rooms (join refusing quiet ''s1'' (subscribe ''private-a'') busy) = rooms busy
   \<and> db (join refusing quiet ''s1'' (subscribe ''private-a'') busy) = db busy
   \<and> filter is_store_write
        (new_actions busy (join refusing quiet ''s1'' (subscribe ''private-a'') busy)) = []"
proof -
  have h1: "sub_channel (subscribe ''private-a'') = Some ''private-a''"
    by (simp add: subscribe_def)
  have h2: "isPrivate ''private-a''" by (rule isPrivate_examples)
  have h3: "authenticate refusing ''s1'' (subscribe ''private-a'') = Denied ''Forbidden'' 403"
    by (simp add: refusing_def)
  from denied_changes_nothing [OF h1 h2 h3, of quiet busy] h1 h2 h3
  show ?thesis by simp
qed

subsection \<open>C4: what a denied authorization emits\<close>

text \<open>
  Claim C4 says that the event sent on a denial carries the reason and the status. The
  source emits \<open>subscription_error\<close> with \<open>data.channel\<close> and \<open>error.status\<close>; the
  reason only reaches the log, in dev mode. With the reason \<open>Forbidden\<close> and the status
  403, the arguments of the one event are the channel name and 403.
\<close>

theorem denied_reason_not_sent:
  "authenticate refusing ''s1'' (subscribe ''private-a'') = Denied ''Forbidden'' 403
   \<and> new_actions init (join refusing quiet ''s1'' (subscribe ''private-a'') init)
       = [Authenticate ''s1'' ''private-a'',
          EmitTo ''s1'' ''subscription_error'' [JStr ''private-a'', JNum 403]]
   \<and> JStr ''Forbidden'' \<notin> set [JStr ''private-a'', JNum 403]"
  by (simp add: run_defs isPrivate_examples)

text \<open>
  Claim C4, amended. When the authorization of a private-style channel is denied, exactly
  one event is emitted: \<open>subscription_error\<close>, addressed to the room named by the id of
  the requesting socket, carrying the channel name and the status code of the denial. When
  that room holds the requesting socket alone, that socket is the only receiver. The
  reason is written to the log in dev mode and goes nowhere else.
\<close>

theorem denied_emits_status:
  assumes "sub_channel data = Some channel" "isPrivate channel"
    and "authenticate col sid data = Denied reason status"
  shows "new_actions st (join col opts sid data st)
           = Authenticate sid channel # (if devMode opts then [Log reason] else [])
               @ [EmitTo sid ''subscription_error'' [JStr channel, JNum status]]
       \<and> filter is_emission (new_actions st (join col opts sid data st))
           = [EmitTo sid ''subscription_error'' [JStr channel, JNum status]]
       \<and> (rooms st sid = {sid} \<longrightarrow>
            receivers (join col opts sid data st)
              (EmitTo sid ''subscription_error'' [JStr channel, JNum status]) = {sid})"
  by (simp add: join_denied [OF assms] new_actions_def)

text \<open>
  The amended statement at a concrete denial, in a state where B is alone in its own room.
\<close>

theorem denied_emits_status_witness:
  "sub_channel (subscribe ''private-a'') = Some ''private-a'' \<and> isPrivate ''private-a''
   \<and> authenticate refusing ''B'' (subscribe ''private-a'') = Denied ''Forbidden'' 403
   \<and> rooms chat ''B'' = {''B''}
   \<and> filter is_emission
        (new_actions chat (join refusing quiet ''B'' (subscribe ''private-a'') chat))
        = [EmitTo ''B'' ''subscription_error'' [JStr ''private-a'', JNum 403]]
   \<and> receivers (join refusing quiet ''B'' (subscribe ''private-a'') chat)
         (EmitTo ''B'' ''subscription_error'' [JStr ''private-a'', JNum 403]) = {''B''}"
proof -
  have h1: "sub_channel (subscribe ''private-a'') = Some ''private-a''"
    by (simp add: subscribe_def)
  have h2: "isPrivate ''private-a''" by (rule isPrivate_examples)
  have h3: "authenticate refusing ''B'' (subscribe ''private-a'') = Denied ''Forbidden'' 403"
    by (simp add: refusing_def)
  from denied_emits_status [OF h1 h2 h3, of chat quiet] h1 h2 h3
  show ?thesis by (simp add: chat_def init_def)
qed

subsection \<open>C5: the private-style patterns are not anchored\<close>

text \<open>
  Claim C5 reads the star of a pattern as an arbitrary suffix, so that with the patterns
  \<open>private-*\<close> and \<open>presence-*\<close> the private-style names are those that begin with
  \<open>private-\<close> or \<open>presence-\<close>. The expression built by \<open>isPrivate\<close> has no anchor and
  \<open>test\<close> finds a match anywhere (lemma \<open>isPrivate_iff\<close>): the name \<open>my-private-room\<close>
  begins with neither prefix and is classified as private-style.
\<close>

theorem isPrivate_not_anchored:
  "isPrivate ''my-private-room''
   \<and> \<not> prefix ''private-'' ''my-private-room'' \<and> \<not> prefix ''presence-'' ''my-private-room''"
  by (simp add: isPrivate_def privateChannels_def metachar_def atom_of_def)

subsection \<open>C6: rebroadcasting a client event\<close>

text \<open>
  Claim C6 says that \<open>clientEvent\<close> rebroadcasts an event if and only if its name matches
  a client-event pattern, the channel is private-style and the sender is in the room of
  the channel, the star of a pattern standing for an arbitrary suffix as in C5. The
  expressions of \<open>isClientEvent\<close> and \<open>isPrivate\<close> have no anchor (lemmas
  \<open>isClientEvent_iff\<close> and \<open>isPrivate_iff\<close>), the defect of C5. So the event
  \<open>x-client-y\<close>, whose name does not begin with \<open>client-\<close>, sent by A on the private
  channel \<open>private-chat\<close>, is broadcast to B, the other socket of the room; and so is the
  same event on \<open>my-private-room\<close>, a name that begins with neither \<open>private-\<close> nor
  \<open>presence-\<close>. In both runs the calls made are exactly the one broadcast.
\<close>

theorem clientEvent_not_anchored:
  "\<not> prefix ''client-'' ''x-client-y''
   \<and> clientEvent refusing ''A'' (Message (odd_event ''private-chat'')) chat
       = Inr (chat\<lparr>trace := [BroadcastTo ''A'' ''private-chat'' ''x-client-y''
                                [JStr ''private-chat'', JStr ''hi'']]\<rparr>)
   \<and> receivers chat (BroadcastTo ''A'' ''private-chat'' ''x-client-y''
                        [JStr ''private-chat'', JStr ''hi'']) = {''B''}
   \<and> \<not> prefix ''private-'' ''my-private-room'' \<and> \<not> prefix ''presence-'' ''my-private-room''
   \<and> clientEvent refusing ''A'' (Message (odd_event ''my-private-room'')) side_room
       = Inr (side_room\<lparr>trace := [BroadcastTo ''A'' ''my-private-room'' ''x-client-y''
                                     [JStr ''my-private-room'', JStr ''hi'']]\<rparr>)
   \<and> receivers side_room (BroadcastTo ''A'' ''my-private-room'' ''x-client-y''
                             [JStr ''my-private-room'', JStr ''hi'']) = {''B''}"
proof -
  have rooms: "rooms chat ''private-chat'' = {''A'', ''B''}"
      "rooms side_room ''my-private-room'' = {''A'', ''B''}"
      "trace chat = []" "trace side_room = []"
    by (simp_all add: chat_def side_room_def init_def)
  have ev: "isClientEvent ''x-client-y''"
    by (simp add: isClientEvent_def clientEvents_def metachar_def atom_of_def)
  have ch: "isPrivate ''private-chat''" "isPrivate ''my-private-room''"
    by (simp_all add: isPrivate_def privateChannels_def metachar_def atom_of_def)
  have diff: "{''A'', ''B''} - {''A''} = {''B''}" by auto
  show ?thesis
    by (simp add: clientEvent_def decode_incoming_def odd_event_def Let_def isInChannel_def
          record_action_def rooms ev ch diff)
qed

subsection \<open>C7: one entry per socket\<close>

text \<open>
  Claim C7 says that every join keeps at most one entry per \<open>socketId\<close> in the persisted
  member list. \<open>join\<close> removes the earlier entries by \<open>userId\<close>, not by \<open>socketId\<close>:
  a socket that has joined \<open>lobby\<close> as user 7 and has then become user 9 (by joining
  \<open>user.9\<close>) is entered a second time when it joins \<open>lobby\<close> again.
\<close>

theorem join_duplicates_socket:
  "one_per_socket after_three_joins ''lobby''
   \<and> \<not> isPresence ''lobby''
   \<and> stored_members (join refusing quiet ''A'' (subscribe ''lobby'') after_three_joins) ''lobby''
       = [\<lparr>userId = ''7'', socketId = ''A''\<rparr>, \<lparr>userId = ''9'', socketId = ''A''\<rparr>]
   \<and> \<not> one_per_socket (join refusing quiet ''A'' (subscribe ''lobby'') after_three_joins) ''lobby''"
  by (simp add: after_three_joins_def run_defs isPrivate_examples)

text \<open>
  Claim C7, amended. For the members that \<open>Channel.join\<close> and \<open>Channel.leave\<close> persist
  themselves (the channel joined or left is not a presence channel): a leave keeps the
  member list of every channel at one entry per \<open>socketId\<close> at most; a join does so when
  the persisted list of the joined channel has no entry of the joining socket under a
  \<open>userId\<close> other than the one the socket carries after \<open>onJoin\<close>.
\<close>

theorem one_per_socket_preserved:
  assumes "one_per_socket st c" "\<not> isPresence ch"
  shows "(sub_channel data = Some ch
            \<and> (\<forall>e \<in> set (stored_members st ch).
                  socketId e = sid
                  \<longrightarrow> socket_userId (onJoin opts sid ch st) sid = Some (userId e))
          \<longrightarrow> one_per_socket (join col opts sid data st) c)
       \<and> one_per_socket (leave col opts sid ch reason st) c"
proof (intro conjI impI)
  assume a: "sub_channel data = Some ch
            \<and> (\<forall>e \<in> set (stored_members st ch).
                  socketId e = sid
                  \<longrightarrow> socket_userId (onJoin opts sid ch st) sid = Some (userId e))"
  from a have ch: "sub_channel data = Some ch" by simp
  from join_stored_members [OF ch assms(2), of col opts sid st c]
  show "one_per_socket (join col opts sid data st) c"
  proof (elim disjE conjE exE)
    assume "stored_members (join col opts sid data st) c = stored_members st c"
    with assms(1) show "one_per_socket (join col opts sid data st) c"
      by (simp add: one_per_socket_def)
  next
    fix uid
    assume c: "c = ch" and u: "socket_userId (onJoin opts sid ch st) sid = Some uid"
      and eq: "stored_members (join col opts sid data st) c
                 = filter (\<lambda>e. socketId e \<in> insert sid (rooms st ch) \<and> userId e \<noteq> uid)
                     (stored_members st ch) @ [\<lparr>userId = uid, socketId = sid\<rparr>]"
    from a u have "\<forall>e \<in> set (stored_members st ch). socketId e = sid \<longrightarrow> userId e = uid"
      by auto
    then have "sid \<notin> socketId ` set (filter (\<lambda>e. socketId e \<in> insert sid (rooms st ch)
                  \<and> userId e \<noteq> uid) (stored_members st ch))"
      by auto
    with assms(1) c eq show "one_per_socket (join col opts sid data st) c"
      by (simp add: one_per_socket_def distinct_socket_filter)
  qed
next
  from leave_stored_members [OF assms(2), of col opts sid reason st c] assms(1)
  show "one_per_socket (leave col opts sid ch reason st) c"
    by (auto simp: one_per_socket_def distinct_socket_filter)
qed

text \<open>
  The amended statement at a concrete state: A, user 7, joins and leaves \<open>lobby\<close>.
\<close>

theorem one_per_socket_preserved_witness:
  "one_per_socket busy ''lobby'' \<and> \<not> isPresence ''lobby''
   \<and> sub_channel (subscribe ''lobby'') = Some ''lobby''
   \<and> filter (\<lambda>e. socketId e = ''A'') (stored_members busy ''lobby'')
       = [\<lparr>userId = ''7'', socketId = ''A''\<rparr>]
   \<and> socket_userId (onJoin quiet ''A'' ''lobby'' busy) ''A'' = Some ''7''
   \<and> one_per_socket (join refusing quiet ''A'' (subscribe ''lobby'') busy) ''lobby''
   \<and> one_per_socket (leave refusing quiet ''A'' ''lobby'' ''bye'' busy) ''lobby''"
proof -
  have h1: "one_per_socket busy ''lobby''"
    by (simp add: one_per_socket_def busy_members)
  have h2: "\<not> isPresence ''lobby''" by (simp add: isPresence_def)
  have h3: "sub_channel (subscribe ''lobby'') = Some ''lobby''" by (simp add: subscribe_def)
  have u: "socket_userId (onJoin quiet ''A'' ''lobby'' busy) ''A'' = Some ''7''"
    by (simp add: onJoin_def user_match_here_def quiet_def busy_def)
  have h4: "\<forall>e \<in> set (stored_members busy ''lobby'').
              socketId e = ''A''
              \<longrightarrow> socket_userId (onJoin quiet ''A'' ''lobby'' busy) ''A'' = Some (userId e)"
    by (simp add: busy_members u)
  have f: "filter (\<lambda>e. socketId e = ''A'') (stored_members busy ''lobby'')
             = [\<lparr>userId = ''7'', socketId = ''A''\<rparr>]"
    by (simp add: busy_members)
  from one_per_socket_preserved [OF h1 h2, of "subscribe ''lobby''" "''A''" quiet refusing "''bye''"]
    h1 h2 h3 h4 u f
  show ?thesis by blast
qed

subsection \<open>C8: the user id read from the channel name\<close>

text \<open>
  Claim C8 says that a join sets the \<open>userId\<close> of the socket from a segment
  \<open>user.<digits>\<close> of the channel name and leaves it alone when the name has no such
  segment. The expression of \<open>onJoin\<close> is \<open>/user.(\d*)/\<close>: its dot matches any
  character, and its group may be empty at the leftmost match. So the join of \<open>user512\<close>,
  a name without the text \<open>user.\<close>, sets the user id to 12, and the join of
  \<open>user.a-user.5\<close>, a name with the segment \<open>user.5\<close>, sets none.
\<close>

theorem onJoin_any_separator:
  "socket_userId (join refusing quiet ''s1'' (subscribe ''user512'') init) ''s1'' = Some ''12''
   \<and> \<not> sublist ''user.'' ''user512''
   \<and> socket_userId (join refusing quiet ''s1'' (subscribe ''user.a-user.5'') init) ''s1'' = None
   \<and> sublist ''user.5'' ''user.a-user.5''"
  by (simp add: run_defs isPrivate_iff sublist_Cons_right)

subsection \<open>C9: leaving a channel that was never joined\<close>

text \<open>
  Claim C9 says that such a leave changes neither the persisted member list nor the member
  count. The source writes both keys on every leave of a channel that is not a presence
  channel: on the initial state, where nothing is stored for \<open>room1\<close>, the leave creates
  \<open>room1:members\<close> with the empty list and \<open>room1:members-count\<close> with 0.
\<close>

theorem leave_never_joined_writes:
  "stored_members init ''room1'' = []
   \<and> db init ''room1:members-count'' = None
   \<and> db (leave refusing quiet ''s1'' ''room1'' ''bye'' init) ''room1:members-count''
       = Some (Count 0)
   \<and> db init ''room1:members'' = None
   \<and> db (leave refusing quiet ''s1'' ''room1'' ''bye'' init) ''room1:members''
       = Some (Members [])"
  by (simp add: run_defs)

text \<open>
  Claim C9, amended. When a connection leaves a channel with a non-empty name that is not
  a presence channel, the read of \<open><channel>:members\<close> succeeds with the list \<open>S\<close>
  (nothing stored reads as the empty list) and \<open>S\<close> has no entry of the leaving socket,
  then the leave does not fail, writes \<open>S\<close> itself back under \<open><channel>:members\<close> and
  its length under \<open><channel>:members-count\<close>, changes no other key, and removes the
  socket from the room of the channel.
\<close>

theorem leave_never_joined:
  assumes "channel \<noteq> []" "\<not> isPresence channel"
    and "db_failure st (channel @ '':members'') = None"
    and "or_empty (db st (channel @ '':members'')) = Some S"
    and "sid \<notin> socketId ` set S"
  shows "db (leave col opts sid channel reason st)
           = (db st)(channel @ '':members'' := Some (Members S),
                     channel @ '':members-count'' := Some (Count (length S)))
       \<and> rooms (leave col opts sid channel reason st)
           = (rooms st)(channel := rooms st channel - {sid})"
proof -
  from assms(5) have "filter (\<lambda>m. socketId m \<noteq> sid) S = S"
    by (auto simp: filter_id_conv)
  with leave_public(1,2) [of channel st S col opts sid reason] assms show ?thesis
    by (simp add: members_key_def count_key_def)
qed

text \<open>
  The amended statement at a concrete leave: B, which has no entry, leaves \<open>lobby\<close>; the
  three entries stay and the count, absent before, becomes 3.
\<close>

theorem leave_never_joined_witness:
  "\<not> isPresence ''lobby'' \<and> db_failure busy ''lobby:members'' = None
   \<and> ''B'' \<notin> socketId ` set (stored_members busy ''lobby'')
   \<and> db (leave refusing quiet ''B'' ''lobby'' ''bye'' busy) ''lobby:members''
       = Some (Members [\<lparr>userId = ''7'', socketId = ''A''\<rparr>,
                        \<lparr>userId = ''8'', socketId = ''C''\<rparr>,
                        \<lparr>userId = ''9'', socketId = ''D''\<rparr>])
   \<and> db (leave refusing quiet ''B'' ''lobby'' ''bye'' busy) ''lobby:members-count''
       = Some (Count 3)"
proof -
  have h1: "''lobby'' \<noteq> []" by simp
  have h2: "\<not> isPresence ''lobby''" by (simp add: isPresence_def)
  have h5: "''B'' \<notin> socketId ` set [\<lparr>userId = ''7'', socketId = ''A''\<rparr>,
                                      \<lparr>userId = ''8'', socketId = ''C''\<rparr>,
                                      \<lparr>userId = ''9'', socketId = ''D''\<rparr>]" by simp
  from leave_never_joined [OF h1 h2 busy_members(2) busy_members(1) h5,
         of refusing quiet "''bye''"] h2 h5 busy_members(2,3)
  show ?thesis by simp
qed

subsection \<open>C10: a subscription without a channel\<close>

text \<open>
  Claim C10. When the payload of a subscription has no channel, or the empty string, \<open>join\<close>
  returns the state as it was: no call to the authenticator, to the transport or to the
  store, no change of a user id, no event.
\<close>

theorem join_without_channel:
  "sub_channel data = None \<or> sub_channel data = Some [] \<Longrightarrow> join col opts sid data st = st"
  by (auto simp: join_def)

text \<open>
  The theorem at the two payloads, in a state that is not empty.
\<close>

theorem join_without_channel_witness:
  "join refusing quiet ''s1'' \<lparr>sub_channel = Some [], sub_auth = JUndefined\<rparr> busy = busy
   \<and> join refusing quiet ''s1'' \<lparr>sub_channel = None, sub_auth = JUndefined\<rparr> busy = busy"
  using join_without_channel [of "\<lparr>sub_channel = Some [], sub_auth = JUndefined\<rparr>" refusing quiet "''s1''" busy]
    join_without_channel [of "\<lparr>sub_channel = None, sub_auth = JUndefined\<rparr>" refusing quiet "''s1''" busy]
  by simp

end
